theory Spec2Isabelle
  imports Main
begin

section \<open>Browser and session state\<close>

text \<open>
  The state the session code reads and writes: \<open>localStorage\<close> (a string-keyed map),
  the assignments made to \<open>window.location.href\<close>, the notifications handed to
  \<open>toast\<close>, and the three \<open>useState\<close> cells of \<open>AuthProvider\<close>
  (\<open>user\<close>, \<open>loading\<close>, \<open>isAuthenticated\<close>).
  The type \<open>'u\<close> is the JSON value of a user record.
\<close>

datatype toast = ToastError string | ToastSuccess string

record 'u world =
  storage :: "string \<rightharpoonup> string"
  navigations :: "string list"
  toasts :: "toast list"
  user :: "'u option"
  loading :: bool
  isAuthenticated :: bool

text \<open>
  A rejected request: an axios error carries the response (status and
  \<open>data.detail\<close>) when the server answered, and the request url in its config;
  \<open>new Error(msg)\<close> carries neither.
\<close>

datatype error =
    AxiosError "(nat \<times> string option) option" "string option"
  | JsError string

fun error_status :: "error \<Rightarrow> nat option" where
  "error_status (AxiosError (Some (st, d)) u) = Some st"
| "error_status (AxiosError None u) = None"
| "error_status (JsError m) = None"

fun error_detail :: "error \<Rightarrow> string option" where
  "error_detail (AxiosError (Some (st, d)) u) = d"
| "error_detail (AxiosError None u) = None"
| "error_detail (JsError m) = None"

fun error_url :: "error \<Rightarrow> string option" where
  "error_url (AxiosError r u) = u"
| "error_url (JsError m) = None"

text \<open>What the server did with a request: a 2xx body, an error status, or no answer.\<close>

datatype 'a reply = Success 'a | Failure nat "string option" | NoResponse

subsection \<open>JavaScript helpers\<close>

text \<open>Truthiness of a value that is \<open>null\<close>/\<open>undefined\<close> or a string.\<close>

fun truthy :: "string option \<Rightarrow> bool" where
  "truthy None = False"
| "truthy (Some s) = (s \<noteq> [])"

fun starts_with :: "string \<Rightarrow> string \<Rightarrow> bool" where
  "starts_with s [] = True"
| "starts_with [] (p # ps) = False"
| "starts_with (c # cs) (p # ps) = (c = p \<and> starts_with cs ps)"

text \<open>\<open>String.prototype.includes\<close>.\<close>

fun str_includes :: "string \<Rightarrow> string \<Rightarrow> bool" where
  "str_includes [] p = (p = [])"
| "str_includes (c # cs) p = (starts_with (c # cs) p \<or> str_includes cs p)"

text \<open>\<open>error.config?.url?.includes(p)\<close>: \<open>undefined\<close> (falsy) without a url.\<close>

fun url_includes :: "error \<Rightarrow> string \<Rightarrow> bool" where
  "url_includes e p = (case error_url e of None \<Rightarrow> False | Some u \<Rightarrow> str_includes u p)"

section \<open>services/api: token management and the response interceptor\<close>

definition getToken :: "'u world \<Rightarrow> string option" where
  "getToken w = storage w ''token''"

definition setToken :: "string \<Rightarrow> 'u world \<Rightarrow> 'u world" where
  "setToken t w = w\<lparr>storage := (storage w)(''token'' \<mapsto> t)\<rparr>"

definition removeToken :: "'u world \<Rightarrow> 'u world" where
  "removeToken w = w\<lparr>storage := (storage w)(''token'' := None)\<rparr>"

definition removeUser :: "'u world \<Rightarrow> 'u world" where
  "removeUser w = w\<lparr>storage := (storage w)(''user'' := None)\<rparr>"

definition navigate_to :: "string \<Rightarrow> 'u world \<Rightarrow> 'u world" where
  "navigate_to p w = w\<lparr>navigations := navigations w @ [p]\<rparr>"

definition toast_error :: "string \<Rightarrow> 'u world \<Rightarrow> 'u world" where
  "toast_error m w = w\<lparr>toasts := toasts w @ [ToastError m]\<rparr>"

definition toast_success :: "string \<Rightarrow> 'u world \<Rightarrow> 'u world" where
  "toast_success m w = w\<lparr>toasts := toasts w @ [ToastSuccess m]\<rparr>"

text \<open>
  The request interceptor: the \<open>Authorization\<close> header put on an outgoing request.
\<close>

record request =
  req_url :: string
  authorization :: "string option"

definition request_interceptor :: "string \<Rightarrow> 'u world \<Rightarrow> request" where
  "request_interceptor url w =
     \<lparr>req_url = url,
      authorization =
        (case getToken w of
           None \<Rightarrow> None
         | Some t \<Rightarrow> if t \<noteq> [] then Some (''Bearer '' @ t) else None)\<rparr>"

text \<open>
  The rejection handler of \<open>api.interceptors.response\<close>: its effect on the state.
  It always ends in \<open>Promise.reject(error)\<close> with the error it was given.
\<close>

definition response_error :: "error \<Rightarrow> 'u world \<Rightarrow> 'u world" where
  "response_error e w =
     (if error_status e = Some 401 then
        (if \<not> url_includes e ''/auth/login'' \<and> \<not> url_includes e ''/agents/career'' then
           toast_error ''Session expired. Please login again.'' (navigate_to ''/'' (removeToken w))
         else w)
      else if (case error_status e of None \<Rightarrow> False | Some st \<Rightarrow> st \<ge> 500) then
        toast_error ''Server error. Please try again later.'' w
      else w)"

text \<open>
  What axios makes of the server's reply to a request for \<open>url\<close>: the response body,
  or an error that records the response (if any) and the request's url.
\<close>

fun axios_settle :: "string \<Rightarrow> 'a reply \<Rightarrow> error + 'a" where
  "axios_settle url (Success d) = Inr d"
| "axios_settle url (Failure st det) = Inl (AxiosError (Some (st, det)) (Some url))"
| "axios_settle url NoResponse = Inl (AxiosError None (Some url))"

fun succeeded :: "'a reply \<Rightarrow> bool" where
  "succeeded (Success d) = True"
| "succeeded (Failure st det) = False"
| "succeeded NoResponse = False"

text \<open>
  A call through the axios instance \<open>api\<close> to \<open>url\<close>, given the server's reply:
  the value the awaiting caller resumes with, and the state after the interceptor ran.
\<close>

definition api_request :: "string \<Rightarrow> 'a reply \<Rightarrow> 'u world \<Rightarrow> (error + 'a) \<times> 'u world" where
  "api_request url r w =
     (case axios_settle url r of
        Inr d \<Rightarrow> (Inr d, w)
      | Inl e \<Rightarrow> (Inl e, response_error e w))"

subsection \<open>authAPI\<close>

text \<open>The body of a successful login response.\<close>

record 'u login_data =
  access_token :: "string option"
  data_user :: 'u

definition store_session :: "('u \<Rightarrow> string) \<Rightarrow> 'u login_data \<Rightarrow> 'u world \<Rightarrow> 'u world" where
  "store_session stringify d w =
     (case access_token d of
        None \<Rightarrow> w
      | Some t \<Rightarrow>
          if t \<noteq> [] then
            (setToken t w)\<lparr>storage := (storage (setToken t w))(''user'' \<mapsto> stringify (data_user d))\<rparr>
          else w)"

text \<open>
  \<open>authAPI.login\<close>, from the point where \<open>api.post('/auth/login')\<close> settles.
  \<open>stringify\<close> stands for \<open>JSON.stringify\<close>.
\<close>

definition authAPI_login ::
  "('u \<Rightarrow> string) \<Rightarrow> 'u login_data reply \<Rightarrow> 'u world \<Rightarrow> (error + 'u login_data) \<times> 'u world" where
  "authAPI_login stringify r w =
     (case api_request ''/auth/login'' r w of
        (Inr d, w') \<Rightarrow> (Inr d, store_session stringify d w')
      | (Inl e, w') \<Rightarrow> (Inl e, w'))"

definition authAPI_logout :: "'u world \<Rightarrow> 'u world" where
  "authAPI_logout w = removeUser (removeToken w)"

text \<open>
  \<open>authAPI.getCurrentUser\<close>: the synchronous part up to the request, and the part
  after \<open>api.get('/auth/me')\<close> settles.
\<close>

definition getCurrentUser_begin :: "'u world \<Rightarrow> error + request" where
  "getCurrentUser_begin w =
     (if \<not> truthy (getToken w) then Inl (JsError ''No token found'')
      else Inr (request_interceptor ''/auth/me'' w))"

definition getCurrentUser_resume :: "'u reply \<Rightarrow> 'u world \<Rightarrow> (error + 'u) \<times> 'u world" where
  "getCurrentUser_resume r w =
     (case api_request ''/auth/me'' r w of
        (Inr d, w') \<Rightarrow> (Inr d, w')
      | (Inl e, w') \<Rightarrow> (Inl (JsError ''Invalid session''), removeUser (removeToken w')))"

section \<open>hooks/useAuth: AuthProvider\<close>

text \<open>The provider as first rendered: the initial values of its three state cells.\<close>

definition mount :: "(string \<rightharpoonup> string) \<Rightarrow> 'u world" where
  "mount st =
     \<lparr>storage = st, navigations = [], toasts = [], user = None, loading = True,
      isAuthenticated = False\<rparr>"

text \<open>
  \<open>initAuth\<close>, split at its one \<open>await\<close>: the first part returns the request it
  leaves in flight, if any.
\<close>

definition initAuth_begin :: "'u world \<Rightarrow> request option \<times> 'u world" where
  "initAuth_begin w =
     (if truthy (getToken w) then
        (case getCurrentUser_begin w of
           Inr req \<Rightarrow> (Some req, w)
         | Inl e \<Rightarrow> (None, (authAPI_logout w)\<lparr>loading := False\<rparr>))
      else (None, w\<lparr>loading := False\<rparr>))"

definition initAuth_resume :: "'u reply \<Rightarrow> 'u world \<Rightarrow> 'u world" where
  "initAuth_resume r w =
     (case getCurrentUser_resume r w of
        (Inr u, w') \<Rightarrow> w'\<lparr>user := Some u, isAuthenticated := True, loading := False\<rparr>
      | (Inl e, w') \<Rightarrow> (authAPI_logout w')\<lparr>loading := False\<rparr>)"

text \<open>\<open>initAuth\<close> run to completion with nothing else in between.\<close>

definition initAuth :: "'u reply \<Rightarrow> 'u world \<Rightarrow> 'u world" where
  "initAuth r w =
     (case initAuth_begin w of
        (Some req, w') \<Rightarrow> initAuth_resume r w'
      | (None, w') \<Rightarrow> w')"

text \<open>\<open>error.response?.data?.detail || 'Login failed'\<close>.\<close>

definition login_error_message :: "error \<Rightarrow> string" where
  "login_error_message e =
     (case error_detail e of
        None \<Rightarrow> ''Login failed''
      | Some d \<Rightarrow> if d \<noteq> [] then d else ''Login failed'')"

text \<open>\<open>login\<close>, split at its \<open>await\<close>.\<close>

definition login_begin :: "'u world \<Rightarrow> request \<times> 'u world" where
  "login_begin w =
     (request_interceptor ''/auth/login'' (w\<lparr>loading := True\<rparr>), w\<lparr>loading := True\<rparr>)"

definition login_resume ::
  "('u \<Rightarrow> string) \<Rightarrow> 'u login_data reply \<Rightarrow> 'u world \<Rightarrow> (error + 'u login_data) \<times> 'u world" where
  "login_resume stringify r w =
     (case authAPI_login stringify r w of
        (Inr d, w') \<Rightarrow>
          (Inr d,
           (toast_success ''Login successful!''
              (w'\<lparr>user := Some (data_user d), isAuthenticated := True\<rparr>))\<lparr>loading := False\<rparr>)
      | (Inl e, w') \<Rightarrow>
          (Inl e,
           (if login_error_message e \<notin> set [''Email not found'', ''Incorrect password'']
            then toast_error (login_error_message e) w' else w')\<lparr>loading := False\<rparr>))"

definition login ::
  "('u \<Rightarrow> string) \<Rightarrow> 'u login_data reply \<Rightarrow> 'u world \<Rightarrow> (error + 'u login_data) \<times> 'u world" where
  "login stringify r w = login_resume stringify r (snd (login_begin w))"

definition logout :: "'u world \<Rightarrow> 'u world" where
  "logout w =
     toast_success ''Logged out successfully''
       ((authAPI_logout w)\<lparr>user := None, isAuthenticated := False\<rparr>)"

text \<open>\<open>error.response?.data?.detail || 'Registration failed'\<close>.\<close>

definition register_error_message :: "error \<Rightarrow> string" where
  "register_error_message e =
     (case error_detail e of
        None \<Rightarrow> ''Registration failed''
      | Some d \<Rightarrow> if d \<noteq> [] then d else ''Registration failed'')"

text \<open>\<open>register\<close>, split at its \<open>await\<close>; \<open>authAPI.register\<close> only forwards the call.\<close>

definition register_begin :: "'u world \<Rightarrow> request \<times> 'u world" where
  "register_begin w =
     (request_interceptor ''/auth/register'' (w\<lparr>loading := True\<rparr>), w\<lparr>loading := True\<rparr>)"

definition register_resume :: "'a reply \<Rightarrow> 'u world \<Rightarrow> (error + 'a) \<times> 'u world" where
  "register_resume r w =
     (case api_request ''/auth/register'' r w of
        (Inr d, w') \<Rightarrow>
          (Inr d, (toast_success ''Registration successful! Please sign in.'' w')\<lparr>loading := False\<rparr>)
      | (Inl e, w') \<Rightarrow>
          (Inl e, (toast_error (register_error_message e) w')\<lparr>loading := False\<rparr>))"

subsection \<open>Runs of the session operations\<close>

text \<open>
  Process start with nothing else in between: the provider mounts over the persisted
  storage and \<open>initAuth\<close> runs to completion.
\<close>

definition startup :: "(string \<rightharpoonup> string) \<Rightarrow> 'u reply \<Rightarrow> 'u world" where
  "startup st r = initAuth r (mount st)"

text \<open>
  The session as it runs: the state above, whether the startup validation request is in
  flight, and how many \<open>login\<close> and \<open>register\<close> calls are awaiting their answer.
\<close>

record 'u session =
  cur :: "'u world"
  validating :: bool
  logins :: nat
  registrations :: nat

text \<open>Process start, up to the point where \<open>initAuth\<close> awaits or returns.\<close>

definition boot :: "(string \<rightharpoonup> string) \<Rightarrow> 'u session" where
  "boot st =
     \<lparr>cur = snd (initAuth_begin (mount st)),
      validating = (fst (initAuth_begin (mount st :: 'u world)) \<noteq> None),
      logins = 0, registrations = 0\<rparr>"

text \<open>
  What can happen next, one event-loop turn at a time: an answer arrives for a request in
  flight, the user submits a login or a registration, the user logs out, or another call
  through \<open>api\<close> (an agent, data or profile call, or a direct \<open>authAPI.register\<close>)
  is answered. Sending such a call changes nothing, so only its answer is an event.
\<close>

datatype 'u event =
    ValidationAnswered "'u reply"
  | LoginSubmitted
  | LoginAnswered "'u login_data reply"
  | RegisterSubmitted
  | RegisterAnswered "unit reply"
  | LoggedOut
  | RequestAnswered string "unit reply"

fun step :: "('u \<Rightarrow> string) \<Rightarrow> 'u event \<Rightarrow> 'u session \<Rightarrow> 'u session option" where
  "step stringify (ValidationAnswered r) s =
     (if validating s then Some (s\<lparr>cur := initAuth_resume r (cur s), validating := False\<rparr>)
      else None)"
| "step stringify LoginSubmitted s =
     Some (s\<lparr>cur := snd (login_begin (cur s)), logins := Suc (logins s)\<rparr>)"
| "step stringify (LoginAnswered r) s =
     (if 0 < logins s
      then Some (s\<lparr>cur := snd (login_resume stringify r (cur s)), logins := logins s - 1\<rparr>)
      else None)"
| "step stringify RegisterSubmitted s =
     Some (s\<lparr>cur := snd (register_begin (cur s)), registrations := Suc (registrations s)\<rparr>)"
| "step stringify (RegisterAnswered r) s =
     (if 0 < registrations s
      then Some (s\<lparr>cur := snd (register_resume r (cur s)), registrations := registrations s - 1\<rparr>)
      else None)"
| "step stringify LoggedOut s = Some (s\<lparr>cur := logout (cur s)\<rparr>)"
| "step stringify (RequestAnswered url r) s = Some (s\<lparr>cur := snd (api_request url r (cur s))\<rparr>)"

fun run :: "('u \<Rightarrow> string) \<Rightarrow> 'u event list \<Rightarrow> 'u session \<Rightarrow> 'u session option" where
  "run stringify [] s = Some s"
| "run stringify (ev # evs) s =
     (case step stringify ev s of None \<Rightarrow> None | Some s' \<Rightarrow> run stringify evs s')"

text \<open>A reply that sends the interceptor into its session-expired branch.\<close>

fun expiring :: "string \<Rightarrow> 'a reply \<Rightarrow> bool" where
  "expiring url (Failure st det) =
     (st = 401 \<and> \<not> str_includes url ''/auth/login'' \<and> \<not> str_includes url ''/agents/career'')"
| "expiring url (Success d) = False"
| "expiring url NoResponse = False"

text \<open>
  The events the invariant below leaves out, each in the state where it would happen:
  a successful login answer that carries no token or arrives while the startup validation
  is in flight, a logout while the startup validation is in flight, and a session-expiring
  answer to a registration or to another call.
\<close>

fun permitted :: "'u event \<Rightarrow> 'u session \<Rightarrow> bool" where
  "permitted (LoginAnswered (Success d)) s = (truthy (access_token d) \<and> \<not> validating s)"
| "permitted (LoginAnswered (Failure st det)) s = True"
| "permitted (LoginAnswered NoResponse) s = True"
| "permitted LoggedOut s = (\<not> validating s)"
| "permitted (RegisterAnswered r) s = (\<not> expiring ''/auth/register'' r)"
| "permitted (RequestAnswered url r) s = (\<not> expiring url r)"
| "permitted (ValidationAnswered r) s = True"
| "permitted LoginSubmitted s = True"
| "permitted RegisterSubmitted s = True"

fun permitted_run :: "('u \<Rightarrow> string) \<Rightarrow> 'u event list \<Rightarrow> 'u session \<Rightarrow> bool" where
  "permitted_run stringify [] s = True"
| "permitted_run stringify (ev # evs) s =
     (permitted ev s \<and>
      (case step stringify ev s of None \<Rightarrow> True | Some s' \<Rightarrow> permitted_run stringify evs s'))"

text \<open>
  The flag agrees with the store once the validation is answered, the store still holds
  the token and the flag is down while it is in flight, and \<open>loading\<close> is up only while
  something is in flight.
\<close>

definition consistent :: "'u session \<Rightarrow> bool" where
  "consistent s =
     ((validating s \<longrightarrow> \<not> isAuthenticated (cur s) \<and> truthy (getToken (cur s)))
      \<and> (\<not> validating s \<longrightarrow> isAuthenticated (cur s) = truthy (getToken (cur s)))
      \<and> (loading (cur s) \<longrightarrow> validating s \<or> 0 < logins s \<or> 0 < registrations s))"

text \<open>
  A login submitted while the startup validation request is in flight, with the two
  responses arriving in either order.
\<close>

definition login_answered_first ::
  "('u \<Rightarrow> string) \<Rightarrow> 'u reply \<Rightarrow> 'u login_data reply \<Rightarrow> 'u world \<Rightarrow> 'u world" where
  "login_answered_first stringify rv rl w =
     initAuth_resume rv
       (snd (login_resume stringify rl (snd (login_begin (snd (initAuth_begin w))))))"

definition validation_answered_first ::
  "('u \<Rightarrow> string) \<Rightarrow> 'u reply \<Rightarrow> 'u login_data reply \<Rightarrow> 'u world \<Rightarrow> 'u world" where
  "validation_answered_first stringify rv rl w =
     snd (login_resume stringify rl
            (initAuth_resume rv (snd (login_begin (snd (initAuth_begin w))))))"

text \<open>Several rejected responses handled one after the other by the interceptor.\<close>

definition handle_all :: "error list \<Rightarrow> 'u world \<Rightarrow> 'u world" where
  "handle_all es w = fold response_error es w"

subsection \<open>The specification's status, read off the provider's flags\<close>

text \<open>
  The provider has no status value: it has \<open>loading\<close> and \<open>isAuthenticated\<close>, which the
  route guard reads in this order. \<open>Validating\<close> stands for both \<open>Uninitialized\<close> and
  \<open>Validating\<close>, which the flags do not tell apart.
\<close>

datatype status = Validating | Authenticated | Unauthenticated

definition spec_status :: "'u world \<Rightarrow> status" where
  "spec_status w =
     (if loading w then Validating
      else if isAuthenticated w then Authenticated else Unauthenticated)"

section \<open>components/ProtectedRoute and the entry view\<close>

text \<open>The router state a redirect carries; an absent field reads as falsy.\<close>

record loc_state =
  requiresLogin :: bool
  fromProtectedRoute :: bool

datatype view = Spinner | Children | Navigate string loc_state

definition ProtectedRoute :: "'u world \<Rightarrow> view" where
  "ProtectedRoute w =
     (if loading w then Spinner
      else if isAuthenticated w then Children
      else Navigate ''/'' \<lparr>requiresLogin = True, fromProtectedRoute = True\<rparr>)"

text \<open>
  The entry view \<open>Home\<close>: the state cells its first effect writes, and the state held
  by the browser's history entry (\<open>None\<close> once replaced by the empty object), which is
  what \<open>location.state\<close> is read from when the page is loaded.
\<close>

record home =
  showLoginPrompt :: bool
  selectedFeature :: string
  history_state :: "loc_state option"

fun flag :: "(loc_state \<Rightarrow> bool) \<Rightarrow> loc_state option \<Rightarrow> bool" where
  "flag f None = False"
| "flag f (Some s) = f s"

definition Home_effect :: "loc_state option \<Rightarrow> home \<Rightarrow> home" where
  "Home_effect loc h =
     (let h1 = (if flag requiresLogin loc \<and> flag fromProtectedRoute loc
                then h\<lparr>showLoginPrompt := True, selectedFeature := ''Dashboard''\<rparr> else h)
      in if flag requiresLogin loc then h1\<lparr>history_state := None\<rparr> else h1)"

text \<open>Loading the entry view over a history entry: fresh state cells, then the effect.\<close>

definition Home_load :: "loc_state option \<Rightarrow> home" where
  "Home_load hist =
     Home_effect hist \<lparr>showLoginPrompt = False, selectedFeature = [], history_state = hist\<rparr>"

text \<open>Following a redirect of the guard: the entry view is loaded with the carried state.\<close>

fun follow :: "view \<Rightarrow> home option" where
  "follow (Navigate p s) = (if p = ''/'' then Some (Home_load (Some s)) else None)"
| "follow Spinner = None"
| "follow Children = None"

section \<open>Facts about the request layer\<close>

lemmas api_defs = response_error_def toast_error_def toast_success_def navigate_to_def
  removeToken_def removeUser_def setToken_def getToken_def

lemma api_request_success [simp]: "api_request url (Success d) w = (Inr d, w)"
  by (simp add: api_request_def)

lemma api_request_failure [simp]:
  "api_request url (Failure st det) w =
     (Inl (AxiosError (Some (st, det)) (Some url)),
      response_error (AxiosError (Some (st, det)) (Some url)) w)"
  by (simp add: api_request_def)

lemma api_request_no_response [simp]:
  "api_request url NoResponse w = (Inl (AxiosError None (Some url)), w)"
  by (simp add: api_request_def response_error_def)

lemma response_error_exempt:
  assumes "error_status e = Some 401"
    and "url_includes e ''/auth/login'' \<or> url_includes e ''/agents/career''"
  shows "response_error e w = w"
  using assms by (auto simp: response_error_def)

lemma response_error_expired:
  assumes "error_status e = Some 401"
    and "\<not> url_includes e ''/auth/login''" and "\<not> url_includes e ''/agents/career''"
  shows "response_error e w =
           w\<lparr>storage := (storage w)(''token'' := None),
             navigations := navigations w @ [''/''],
             toasts := toasts w @ [ToastError ''Session expired. Please login again.'']\<rparr>"
  using assms by (simp add: api_defs)

lemma response_error_frame:
  "user (response_error e w) = user w"
  "loading (response_error e w) = loading w"
  "isAuthenticated (response_error e w) = isAuthenticated w"
  by (simp_all add: api_defs)

section \<open>Session expiry in the response interceptor\<close>

text \<open>
  C1 (as amended). For a request whose url contains neither \<open>/auth/login\<close> nor
  \<open>/agents/career\<close> and whose response has status 401, the interceptor removes the
  stored token, assigns the entry path \<open>/\<close> (with no tag) to \<open>window.location.href\<close>,
  hands one "Session expired" error to \<open>toast\<close>, and rejects with the same error.
  It does not write the provider's \<open>user\<close>, \<open>loading\<close> or \<open>isAuthenticated\<close>.
\<close>

theorem session_expired_handling:
  assumes "\<not> str_includes url ''/auth/login''" and "\<not> str_includes url ''/agents/career''"
  shows "fst (api_request url (Failure 401 det) w) = Inl (AxiosError (Some (401, det)) (Some url))
       \<and> getToken (snd (api_request url (Failure 401 det) w)) = None
       \<and> navigations (snd (api_request url (Failure 401 det) w)) = navigations w @ [''/'']
       \<and> toasts (snd (api_request url (Failure 401 det) w))
           = toasts w @ [ToastError ''Session expired. Please login again.'']
       \<and> user (snd (api_request url (Failure 401 det) w)) = user w
       \<and> loading (snd (api_request url (Failure 401 det) w)) = loading w
       \<and> isAuthenticated (snd (api_request url (Failure 401 det) w)) = isAuthenticated w"
  using assms by (simp add: response_error_expired getToken_def)

theorem session_expired_handling_witness:
  "\<not> str_includes ''/auth/me'' ''/auth/login'' \<and> \<not> str_includes ''/auth/me'' ''/agents/career''
   \<and> fst (api_request ''/auth/me'' (Failure 401 None) (mount [''token'' \<mapsto> ''t''] :: string world))
       = (Inl (AxiosError (Some (401, None)) (Some ''/auth/me'')) :: error + string)
   \<and> getToken (snd (api_request ''/auth/me'' (Failure 401 None :: string reply)
         (mount [''token'' \<mapsto> ''t''] :: string world))) = None
   \<and> navigations (snd (api_request ''/auth/me'' (Failure 401 None :: string reply)
         (mount [''token'' \<mapsto> ''t''] :: string world))) = [''/'']
   \<and> toasts (snd (api_request ''/auth/me'' (Failure 401 None :: string reply)
         (mount [''token'' \<mapsto> ''t''] :: string world)))
       = [ToastError ''Session expired. Please login again.'']"
proof -
  have h1: "\<not> str_includes ''/auth/me'' ''/auth/login''" by simp
  have h2: "\<not> str_includes ''/auth/me'' ''/agents/career''" by simp
  show ?thesis
    using h1 h2
      session_expired_handling [OF h1 h2, of None "mount [''token'' \<mapsto> ''t''] :: string world"]
    by (simp add: mount_def)
qed

text \<open>
  C1 as stated fails at the career-agent endpoint, which is not the login endpoint: a 401
  there leaves the token stored and issues neither redirect nor notification.
\<close>

theorem session_expired_counterexample:
  "\<not> str_includes ''/agents/career'' ''/auth/login''
   \<and> getToken (snd (api_request ''/agents/career'' (Failure 401 None :: string reply)
         ((mount [''token'' \<mapsto> ''t''] :: string world)\<lparr>loading := False, isAuthenticated := True\<rparr>)))
       = Some ''t''
   \<and> navigations (snd (api_request ''/agents/career'' (Failure 401 None :: string reply)
         ((mount [''token'' \<mapsto> ''t''] :: string world)\<lparr>loading := False, isAuthenticated := True\<rparr>)))
       = []
   \<and> toasts (snd (api_request ''/agents/career'' (Failure 401 None :: string reply)
         ((mount [''token'' \<mapsto> ''t''] :: string world)\<lparr>loading := False, isAuthenticated := True\<rparr>)))
       = []"
  by (simp add: api_defs mount_def)

lemma handle_all_expired:
  assumes "\<forall>e \<in> set es. error_status e = Some 401 \<and> \<not> url_includes e ''/auth/login''
             \<and> \<not> url_includes e ''/agents/career''"
  shows "storage (handle_all es w) = (if es = [] then storage w else (storage w)(''token'' := None))
       \<and> toasts (handle_all es w)
           = toasts w @ replicate (length es) (ToastError ''Session expired. Please login again.'')
       \<and> navigations (handle_all es w) = navigations w @ replicate (length es) ''/''"
  using assms
proof (induction es arbitrary: w)
  case Nil
  show ?case by (simp add: handle_all_def)
next
  case (Cons e es)
  let ?w1 = "response_error e w"
  have rest: "\<forall>e \<in> set es. error_status e = Some 401 \<and> \<not> url_includes e ''/auth/login''
                \<and> \<not> url_includes e ''/agents/career''"
    and e: "error_status e = Some 401" "\<not> url_includes e ''/auth/login''"
           "\<not> url_includes e ''/agents/career''"
    using Cons.prems by simp_all
  have w1: "storage ?w1 = (storage w)(''token'' := None)"
    "toasts ?w1 = toasts w @ [ToastError ''Session expired. Please login again.'']"
    "navigations ?w1 = navigations w @ [''/'']"
    by (simp_all add: response_error_expired [OF e])
  have unroll: "handle_all (e # es) w = handle_all es ?w1" by (simp add: handle_all_def)
  from Cons.IH [OF rest, of ?w1]
  have ih: "storage (handle_all es ?w1)
              = (if es = [] then storage ?w1 else (storage ?w1)(''token'' := None))"
    "toasts (handle_all es ?w1)
       = toasts ?w1 @ replicate (length es) (ToastError ''Session expired. Please login again.'')"
    "navigations (handle_all es ?w1) = navigations ?w1 @ replicate (length es) ''/''"
    by simp_all
  show ?case unfolding unroll ih w1 by (cases es) simp_all
qed

text \<open>
  C2 (as amended). The interceptor keeps no record of having fired: every 401 on a
  non-exempt url runs the whole action again. After any number of them the Token Store is
  the one the first left, but each adds its own redirect and its own notification.
\<close>

theorem repeated_expiry_handling:
  assumes "\<forall>e \<in> set es. error_status e = Some 401 \<and> \<not> url_includes e ''/auth/login''
             \<and> \<not> url_includes e ''/agents/career''"
    and "es \<noteq> []"
  shows "storage (handle_all es w) = storage (response_error (hd es) w)
       \<and> toasts (handle_all es w)
           = toasts w @ replicate (length es) (ToastError ''Session expired. Please login again.'')
       \<and> navigations (handle_all es w) = navigations w @ replicate (length es) ''/''"
proof -
  have "error_status (hd es) = Some 401 \<and> \<not> url_includes (hd es) ''/auth/login''
          \<and> \<not> url_includes (hd es) ''/agents/career''"
    using assms by (cases es) simp_all
  then have "storage (response_error (hd es) w) = (storage w)(''token'' := None)"
    by (simp add: response_error_expired)
  then show ?thesis
    using handle_all_expired [OF assms(1), of w] assms(2) by simp
qed

theorem repeated_expiry_handling_witness:
  "error_status (AxiosError (Some (401, None)) (Some ''/goals/summary'')) = Some 401
   \<and> \<not> url_includes (AxiosError (Some (401, None)) (Some ''/goals/summary'')) ''/auth/login''
   \<and> \<not> url_includes (AxiosError (Some (401, None)) (Some ''/goals/summary'')) ''/agents/career''
   \<and> error_status (AxiosError (Some (401, None)) (Some ''/user/stats'')) = Some 401
   \<and> \<not> url_includes (AxiosError (Some (401, None)) (Some ''/user/stats'')) ''/auth/login''
   \<and> \<not> url_includes (AxiosError (Some (401, None)) (Some ''/user/stats'')) ''/agents/career''
   \<and> toasts (handle_all [AxiosError (Some (401, None)) (Some ''/goals/summary''),
                         AxiosError (Some (401, None)) (Some ''/user/stats'')]
               (mount [''token'' \<mapsto> ''t''] :: string world))
       = [ToastError ''Session expired. Please login again.'',
          ToastError ''Session expired. Please login again.'']
   \<and> navigations (handle_all [AxiosError (Some (401, None)) (Some ''/goals/summary''),
                         AxiosError (Some (401, None)) (Some ''/user/stats'')]
               (mount [''token'' \<mapsto> ''t''] :: string world))
       = [''/'', ''/'']"
proof -
  let ?es = "[AxiosError (Some (401, None)) (Some ''/goals/summary''),
              AxiosError (Some (401, None)) (Some ''/user/stats'')]"
  have h1: "\<forall>e \<in> set ?es. error_status e = Some 401 \<and> \<not> url_includes e ''/auth/login''
              \<and> \<not> url_includes e ''/agents/career''"
    by simp
  have h2: "?es \<noteq> []" by simp
  have "toasts (handle_all ?es (mount [''token'' \<mapsto> ''t''] :: string world))
          = toasts (mount [''token'' \<mapsto> ''t''] :: string world)
            @ replicate (length ?es) (ToastError ''Session expired. Please login again.'')
      \<and> navigations (handle_all ?es (mount [''token'' \<mapsto> ''t''] :: string world))
          = navigations (mount [''token'' \<mapsto> ''t''] :: string world)
            @ replicate (length ?es) ''/''"
    using repeated_expiry_handling [OF h1 h2] by blast
  then show ?thesis using h1 by (simp add: mount_def)
qed

text \<open>
  C2 as stated fails: three requests answered 401 give three notifications and three
  redirects, not one of each.
\<close>

theorem repeated_expiry_counterexample:
  "toasts (handle_all [AxiosError (Some (401, None)) (Some ''/goals/summary''),
                       AxiosError (Some (401, None)) (Some ''/user/stats''),
                       AxiosError (Some (401, None)) (Some ''/data/progress'')]
             (mount [''token'' \<mapsto> ''t''] :: string world))
     = [ToastError ''Session expired. Please login again.'',
        ToastError ''Session expired. Please login again.'',
        ToastError ''Session expired. Please login again.'']
   \<and> navigations (handle_all [AxiosError (Some (401, None)) (Some ''/goals/summary''),
                       AxiosError (Some (401, None)) (Some ''/user/stats''),
                       AxiosError (Some (401, None)) (Some ''/data/progress'')]
             (mount [''token'' \<mapsto> ''t''] :: string world))
     = [''/'', ''/'', ''/'']"
  by (simp add: handle_all_def api_defs mount_def)

text \<open>
  C5. The token and the cached user are to be written and cleared together. The 401 branch
  of the interceptor calls only \<open>removeToken\<close>, where \<open>authAPI.logout\<close> and the
  \<open>catch\<close> of \<open>authAPI.getCurrentUser\<close> also remove the \<open>user\<close> key: after a
  401 on the finance-agent endpoint the store holds the user without the token.
\<close>

theorem expired_handler_leaves_user:
  "storage (snd (api_request ''/agents/finance'' (Failure 401 None :: string reply)
       ((mount [''token'' \<mapsto> ''t'', ''user'' \<mapsto> ''ann''] :: string world)
          \<lparr>user := Some ''ann'', loading := False, isAuthenticated := True\<rparr>))) ''token'' = None
   \<and> storage (snd (api_request ''/agents/finance'' (Failure 401 None :: string reply)
       ((mount [''token'' \<mapsto> ''t'', ''user'' \<mapsto> ''ann''] :: string world)
          \<lparr>user := Some ''ann'', loading := False, isAuthenticated := True\<rparr>))) ''user'' = Some ''ann''
   \<and> storage (authAPI_logout
       ((mount [''token'' \<mapsto> ''t'', ''user'' \<mapsto> ''ann''] :: string world)
          \<lparr>user := Some ''ann'', loading := False, isAuthenticated := True\<rparr>)) ''user'' = None"
  by (simp add: api_defs mount_def authAPI_logout_def)

section \<open>Server and network errors\<close>

text \<open>
  C9. A response with status 500 or above, and a request that got no response, are both
  rejected to the caller with the error unchanged; the interceptor leaves the Token Store,
  the location and the provider's state as they were. The two are told apart: the first
  carries a status and draws the "Server error" notification, the second carries no
  response and draws none.
\<close>

theorem server_and_network_errors:
  assumes "500 \<le> st"
  shows "api_request url (Failure st det) w
           = (Inl (AxiosError (Some (st, det)) (Some url)),
              w\<lparr>toasts := toasts w @ [ToastError ''Server error. Please try again later.'']\<rparr>)
       \<and> api_request url NoResponse w = (Inl (AxiosError None (Some url)), w)
       \<and> error_status (AxiosError (Some (st, det)) (Some url)) \<noteq> error_status (AxiosError None (Some url))"
  using assms by (simp add: api_defs)

theorem server_and_network_errors_witness:
  "(500::nat) \<le> 503
   \<and> api_request ''/goals/summary'' (Failure 503 None :: string reply)
        (mount [''token'' \<mapsto> ''t''] :: string world)
       = (Inl (AxiosError (Some (503, None)) (Some ''/goals/summary'')),
          (mount [''token'' \<mapsto> ''t''])
             \<lparr>toasts := [ToastError ''Server error. Please try again later.'']\<rparr>)
   \<and> api_request ''/goals/summary'' (NoResponse :: string reply)
        (mount [''token'' \<mapsto> ''t''] :: string world)
       = (Inl (AxiosError None (Some ''/goals/summary'')), mount [''token'' \<mapsto> ''t''])"
proof -
  have h: "(500::nat) \<le> 503" by simp
  show ?thesis
    using h server_and_network_errors [OF h, of "''/goals/summary''" None
        "mount [''token'' \<mapsto> ''t''] :: string world"]
    by (simp add: mount_def)
qed

section \<open>The career-agent exemption\<close>

text \<open>
  C10. A 401 answer to any request whose url contains \<open>/agents/career\<close> is left alone by
  the response interceptor: the state (Token Store, redirects, notifications, provider
  state) is unchanged and the caller receives the very same rejection.
\<close>

theorem career_401_exempt:
  assumes "str_includes url ''/agents/career''"
  shows "api_request url (Failure 401 det) w
           = (Inl (AxiosError (Some (401, det)) (Some url)), w)"
  using assms by (simp add: response_error_exempt)

theorem career_401_exempt_witness:
  "str_includes ''/agents/career'' ''/agents/career''
   \<and> api_request ''/agents/career'' (Failure 401 (Some ''Not authenticated'') :: string reply)
        ((mount [''token'' \<mapsto> ''t'', ''user'' \<mapsto> ''ann''] :: string world)
           \<lparr>user := Some ''ann'', loading := False, isAuthenticated := True\<rparr>)
     = (Inl (AxiosError (Some (401, Some ''Not authenticated'')) (Some ''/agents/career'')),
        (mount [''token'' \<mapsto> ''t'', ''user'' \<mapsto> ''ann''])
           \<lparr>user := Some ''ann'', loading := False, isAuthenticated := True\<rparr>)"
proof -
  have h: "str_includes ''/agents/career'' ''/agents/career''" by simp
  show ?thesis using h career_401_exempt [OF h] by simp
qed

section \<open>Facts about the session operations\<close>

lemma initAuth_begin_token:
  "truthy (getToken w) \<Longrightarrow> initAuth_begin w = (Some (request_interceptor ''/auth/me'' w), w)"
  by (simp add: initAuth_begin_def getCurrentUser_begin_def)

lemma initAuth_begin_no_token:
  "\<not> truthy (getToken w) \<Longrightarrow> initAuth_begin w = (None, w\<lparr>loading := False\<rparr>)"
  by (simp add: initAuth_begin_def)

lemma initAuth_resume_success:
  "initAuth_resume (Success u) w = w\<lparr>user := Some u, isAuthenticated := True, loading := False\<rparr>"
  by (simp add: initAuth_resume_def getCurrentUser_resume_def)

lemma initAuth_resume_failed:
  assumes "\<not> succeeded r"
  shows "isAuthenticated (initAuth_resume r w) = isAuthenticated w"
    and "loading (initAuth_resume r w) = False"
    and "user (initAuth_resume r w) = user w"
    and "storage (initAuth_resume r w) = (storage w)(''token'' := None, ''user'' := None)"
  using assms
  by (cases r; simp add: initAuth_resume_def getCurrentUser_resume_def authAPI_logout_def api_defs)+

lemma store_session_frame:
  "isAuthenticated (store_session js d w) = isAuthenticated w"
  "loading (store_session js d w) = loading w"
  "user (store_session js d w) = user w"
  "navigations (store_session js d w) = navigations w"
  "toasts (store_session js d w) = toasts w"
  by (simp_all add: store_session_def setToken_def split: option.splits)

lemma store_session_token:
  "truthy (access_token d) \<Longrightarrow> storage (store_session js d w) ''token'' = access_token d"
  by (cases "access_token d") (simp_all add: store_session_def setToken_def)

lemma login_begin_fields:
  "isAuthenticated (snd (login_begin w)) = isAuthenticated w"
  "user (snd (login_begin w)) = user w"
  "storage (snd (login_begin w)) = storage w"
  "navigations (snd (login_begin w)) = navigations w"
  "loading (snd (login_begin w)) = True"
  by (simp_all add: login_begin_def)

lemma login_resume_success:
  "fst (login_resume js (Success d) w) = Inr d"
  "isAuthenticated (snd (login_resume js (Success d) w)) = True"
  "loading (snd (login_resume js (Success d) w)) = False"
  "user (snd (login_resume js (Success d) w)) = Some (data_user d)"
  "navigations (snd (login_resume js (Success d) w)) = navigations w"
  "storage (snd (login_resume js (Success d) w)) = storage (store_session js d w)"
  by (simp_all add: login_resume_def authAPI_login_def toast_success_def store_session_frame)

lemma login_resume_failed:
  assumes "\<not> succeeded r"
  shows "fst (login_resume js r w) = axios_settle ''/auth/login'' r"
    and "isAuthenticated (snd (login_resume js r w)) = isAuthenticated w"
    and "loading (snd (login_resume js r w)) = False"
    and "user (snd (login_resume js r w)) = user w"
    and "storage (snd (login_resume js r w)) = storage w"
    and "navigations (snd (login_resume js r w)) = navigations w"
  using assms
  by (cases r; simp add: login_resume_def authAPI_login_def api_defs)+

lemma logout_fields:
  "isAuthenticated (logout w) = False"
  "user (logout w) = None"
  "loading (logout w) = loading w"
  "storage (logout w) = (storage w)(''token'' := None, ''user'' := None)"
  by (simp_all add: logout_def authAPI_logout_def api_defs)

lemma startup_token:
  assumes "truthy (st ''token'')"
  shows "initAuth_begin (mount st :: 'u world)
           = (Some (request_interceptor ''/auth/me'' (mount st :: 'u world)), mount st)"
    and "startup st r = initAuth_resume r (mount st :: 'u world)"
proof -
  have "truthy (getToken (mount st :: 'u world))"
    using assms by (simp add: getToken_def mount_def)
  then show b: "initAuth_begin (mount st :: 'u world)
           = (Some (request_interceptor ''/auth/me'' (mount st :: 'u world)), mount st)"
    by (rule initAuth_begin_token)
  show "startup st r = initAuth_resume r (mount st :: 'u world)"
    unfolding startup_def initAuth_def b by simp
qed

lemma startup_no_token:
  assumes "\<not> truthy (st ''token'')"
  shows "initAuth_begin (mount st :: 'u world) = (None, (mount st)\<lparr>loading := False\<rparr>)"
    and "startup st r = (mount st :: 'u world)\<lparr>loading := False\<rparr>"
proof -
  have "\<not> truthy (getToken (mount st :: 'u world))"
    using assms by (simp add: getToken_def mount_def)
  then show b: "initAuth_begin (mount st :: 'u world) = (None, (mount st)\<lparr>loading := False\<rparr>)"
    by (rule initAuth_begin_no_token)
  show "startup st r = (mount st :: 'u world)\<lparr>loading := False\<rparr>"
    unfolding startup_def initAuth_def b by simp
qed

lemma mount_fields:
  "storage (mount st) = st" "navigations (mount st) = []" "toasts (mount st) = []"
  "user (mount st) = None" "loading (mount st) = True" "isAuthenticated (mount st) = False"
  by (simp_all add: mount_def)

lemma response_error_not_401:
  assumes "error_status e \<noteq> Some 401"
  shows "storage (response_error e w) = storage w"
  using assms by (simp add: api_defs)

lemma api_request_not_expiring:
  assumes "\<not> expiring url r"
  shows "storage (snd (api_request url r w)) = storage w"
    and "isAuthenticated (snd (api_request url r w)) = isAuthenticated w"
    and "loading (snd (api_request url r w)) = loading w"
proof -
  show "storage (snd (api_request url r w)) = storage w"
  proof (cases r)
    case (Failure st det)
    show ?thesis
    proof (cases "st = 401")
      case True
      then have "str_includes url ''/auth/login'' \<or> str_includes url ''/agents/career''"
        using assms Failure by simp
      then have "response_error (AxiosError (Some (401, det)) (Some url)) w = w"
        by (intro response_error_exempt) simp_all
      then show ?thesis using Failure True by simp
    next
      case False
      then show ?thesis using Failure by (simp add: response_error_not_401)
    qed
  qed simp_all
  show "isAuthenticated (snd (api_request url r w)) = isAuthenticated w"
    by (cases r) (simp_all add: response_error_frame)
  show "loading (snd (api_request url r w)) = loading w"
    by (cases r) (simp_all add: response_error_frame)
qed

lemma register_begin_fields:
  "isAuthenticated (snd (register_begin w)) = isAuthenticated w"
  "storage (snd (register_begin w)) = storage w"
  "loading (snd (register_begin w)) = True"
  by (simp_all add: register_begin_def)

lemma register_resume_not_expiring:
  assumes "\<not> expiring ''/auth/register'' r"
  shows "storage (snd (register_resume r w)) = storage w"
    and "isAuthenticated (snd (register_resume r w)) = isAuthenticated w"
    and "loading (snd (register_resume r w)) = False"
  using assms by (cases r; simp add: register_resume_def api_defs)+

lemma consistent_boot: "consistent (boot st)"
proof (cases "truthy (st ''token'')")
  case True
  then show ?thesis
    by (simp add: consistent_def boot_def startup_token getToken_def mount_fields)
next
  case False
  then show ?thesis
    by (simp add: consistent_def boot_def startup_no_token getToken_def mount_fields)
qed

lemma consistent_step:
  assumes "consistent s" and "permitted ev s" and "step js ev s = Some s'"
  shows "consistent s'"
proof (cases ev)
  case (ValidationAnswered r)
  then have v: "validating s" and s': "s' = s\<lparr>cur := initAuth_resume r (cur s), validating := False\<rparr>"
    using assms(3) by (simp_all split: if_splits)
  show ?thesis
  proof (cases "succeeded r")
    case True
    then obtain u where "r = Success u" by (cases r) simp_all
    then show ?thesis
      using assms(1) v by (simp add: consistent_def s' initAuth_resume_success getToken_def)
  next
    case False
    then show ?thesis
      using assms(1) v by (simp add: consistent_def s' initAuth_resume_failed getToken_def)
  qed
next
  case LoginSubmitted
  then show ?thesis
    using assms(1,3) by (auto simp: consistent_def login_begin_fields getToken_def)
next
  case (LoginAnswered r)
  then have s': "s' = s\<lparr>cur := snd (login_resume js r (cur s)), logins := logins s - 1\<rparr>"
    using assms(3) by (simp split: if_splits)
  show ?thesis
  proof (cases "succeeded r")
    case True
    then obtain d where d: "r = Success d" by (cases r) simp_all
    then have "truthy (access_token d)" and "\<not> validating s"
      using assms(2) LoginAnswered by simp_all
    then show ?thesis
      using store_session_token [of d js "cur s"]
      by (simp add: consistent_def s' d login_resume_success getToken_def)
  next
    case False
    then show ?thesis
      using assms(1) by (simp add: consistent_def s' login_resume_failed getToken_def)
  qed
next
  case RegisterSubmitted
  then show ?thesis
    using assms(1,3) by (auto simp: consistent_def register_begin_fields getToken_def)
next
  case (RegisterAnswered r)
  then have s': "s' = s\<lparr>cur := snd (register_resume r (cur s)),
                        registrations := registrations s - 1\<rparr>"
    and r: "\<not> expiring ''/auth/register'' r"
    using assms(2,3) by (simp_all split: if_splits)
  show ?thesis
    using assms(1) by (simp add: consistent_def s' register_resume_not_expiring [OF r] getToken_def)
next
  case LoggedOut
  then have "\<not> validating s" and "s' = s\<lparr>cur := logout (cur s)\<rparr>"
    using assms(2,3) by simp_all
  then show ?thesis
    using assms(1) by (simp add: consistent_def logout_fields getToken_def)
next
  case (RequestAnswered url r)
  then have s': "s' = s\<lparr>cur := snd (api_request url r (cur s))\<rparr>" and r: "\<not> expiring url r"
    using assms(2,3) by simp_all
  show ?thesis
    using assms(1) by (simp add: consistent_def s' api_request_not_expiring [OF r] getToken_def)
qed

lemma consistent_run:
  "consistent s \<Longrightarrow> permitted_run js evs s \<Longrightarrow> run js evs s = Some s' \<Longrightarrow> consistent s'"
proof (induction evs arbitrary: s)
  case Nil
  then show ?case by simp
next
  case (Cons ev evs)
  from Cons.prems(3) obtain s1 where s1: "step js ev s = Some s1" and rest: "run js evs s1 = Some s'"
    by (auto split: option.splits)
  have "consistent s1"
    using Cons.prems(1,2) s1 by (auto intro: consistent_step)
  moreover have "permitted_run js evs s1"
    using Cons.prems(2) s1 by simp
  ultimately show ?case using Cons.IH rest by blast
qed

section \<open>The status and the Token Store\<close>

lemmas run_defs = boot_def mount_def initAuth_begin_def getCurrentUser_begin_def
  initAuth_resume_def getCurrentUser_resume_def authAPI_logout_def login_begin_def
  login_resume_def authAPI_login_def store_session_def logout_def request_interceptor_def
  spec_status_def api_defs

text \<open>
  C3 (as amended). Take any run of the session from process start: answers to the startup
  validation, to logins and registrations and to other calls arriving in any order,
  logins and registrations submitted and logouts done at any time. Provided that no
  session-expiring 401 is answered to a registration or to another call, that no logout
  and no successful login answer happens while the startup validation is in flight, and
  that every successful login answer carries a non-empty token, then in every state of the
  run where the startup validation has been answered, \<open>isAuthenticated\<close> holds exactly
  when a non-empty token is stored; where moreover \<open>loading\<close> is false, the status is
  Authenticated exactly when a non-empty token is stored; and \<open>loading\<close> is false
  whenever nothing is in flight.
\<close>

theorem authenticated_iff_token_reachable:
  assumes "run js evs (boot st) = Some s" and "permitted_run js evs (boot st)"
  shows "(\<not> validating s \<longrightarrow> isAuthenticated (cur s) = truthy (getToken (cur s)))
       \<and> (\<not> validating s \<and> \<not> loading (cur s) \<longrightarrow>
            (spec_status (cur s) = Authenticated \<longleftrightarrow> truthy (getToken (cur s))))
       \<and> (\<not> validating s \<and> logins s = 0 \<and> registrations s = 0 \<longrightarrow> \<not> loading (cur s))"
proof -
  have "consistent s"
    using consistent_run [OF consistent_boot assms(2) assms(1)] .
  then show ?thesis
    by (auto simp: consistent_def spec_status_def)
qed

theorem authenticated_iff_token_reachable_witness:
  "permitted_run (\<lambda>u. u)
     [LoginSubmitted, ValidationAnswered (Failure 401 None),
      LoginAnswered (Success \<lparr>access_token = Some ''new'', data_user = ''ann''\<rparr>),
      RequestAnswered ''/agents/career'' (Failure 401 None)]
     (boot [''token'' \<mapsto> ''old''])
   \<and> map_option (\<lambda>s. (validating s, logins s, registrations s, loading (cur s),
                       spec_status (cur s), getToken (cur s)))
       (run (\<lambda>u. u)
          [LoginSubmitted, ValidationAnswered (Failure 401 None),
           LoginAnswered (Success \<lparr>access_token = Some ''new'', data_user = ''ann''\<rparr>),
           RequestAnswered ''/agents/career'' (Failure 401 None)]
          (boot [''token'' \<mapsto> ''old'']))
       = Some (False, 0, 0, False, Authenticated, Some ''new'')"
proof -
  let ?evs = "[LoginSubmitted, ValidationAnswered (Failure 401 None),
      LoginAnswered (Success \<lparr>access_token = Some ''new'', data_user = ''ann''\<rparr>),
      RequestAnswered ''/agents/career'' (Failure 401 None)]"
  let ?b = "boot [''token'' \<mapsto> ''old''] :: string session"
  have p: "permitted_run (\<lambda>u. u) ?evs ?b"
    by (simp add: run_defs)
  have v: "map_option (\<lambda>s. (validating s, logins s, registrations s, getToken (cur s)))
             (run (\<lambda>u. u) ?evs ?b) = Some (False, 0, 0, Some ''new'')"
    by (simp add: run_defs)
  then obtain s where s: "run (\<lambda>u. u) ?evs ?b = Some s"
    and f: "\<not> validating s" "logins s = 0" "registrations s = 0" "getToken (cur s) = Some ''new''"
    by auto
  from authenticated_iff_token_reachable [OF s p] f
  have "\<not> loading (cur s)" and "spec_status (cur s) = Authenticated"
    by simp_all
  then show ?thesis using p s f by simp
qed

text \<open>
  C3 as stated fails in both directions, at reachable states of five kinds: the token is
  stored while the startup validation is pending; a session-expiring 401 on another call
  removes the token and leaves the status Authenticated; a login answered before a failing
  startup validation ends Authenticated with the store cleared; a logout followed by the
  answer of the startup validation ends Authenticated with an empty store; a login
  answered without a token ends Authenticated with an empty store.
\<close>

theorem authenticated_iff_token_counterexample:
  "map_option (\<lambda>s. (spec_status (cur s), getToken (cur s)))
       (run (\<lambda>u. u) [] (boot [''token'' \<mapsto> ''abc'']))
     = Some (Validating, Some ''abc'')
   \<and> map_option (\<lambda>s. (spec_status (cur s), getToken (cur s)))
       (run (\<lambda>u. u)
          [ValidationAnswered (Success ''ann''),
           RequestAnswered ''/goals/summary'' (Failure 401 None)]
          (boot [''token'' \<mapsto> ''abc'']))
     = Some (Authenticated, None)
   \<and> map_option (\<lambda>s. (spec_status (cur s), getToken (cur s)))
       (run (\<lambda>u. u)
          [LoginSubmitted,
           LoginAnswered (Success \<lparr>access_token = Some ''new'', data_user = ''ann''\<rparr>),
           ValidationAnswered (Failure 500 None)]
          (boot [''token'' \<mapsto> ''abc'']))
     = Some (Authenticated, None)
   \<and> map_option (\<lambda>s. (spec_status (cur s), getToken (cur s)))
       (run (\<lambda>u. u)
          [LoggedOut, ValidationAnswered (Success ''ann'')]
          (boot [''token'' \<mapsto> ''abc'']))
     = Some (Authenticated, None)
   \<and> map_option (\<lambda>s. (spec_status (cur s), getToken (cur s)))
       (run (\<lambda>u. u)
          [LoginSubmitted,
           LoginAnswered (Success \<lparr>access_token = None, data_user = ''ann''\<rparr>)]
          (boot Map.empty))
     = Some (Authenticated, None)"
  by (simp add: run_defs)

section \<open>A login racing the startup validation\<close>

lemma race_last_writer:
  "\<not> succeeded rv \<Longrightarrow> getToken (login_answered_first js rv rl w) = None"
  "user (login_answered_first js (Success u) rl w) = Some u"
  "user (validation_answered_first js rv (Success d) w) = Some (data_user d)"
  "truthy (access_token d)
     \<Longrightarrow> getToken (validation_answered_first js rv (Success d) w) = access_token d"
  by (simp_all add: login_answered_first_def validation_answered_first_def initAuth_resume_failed
        login_resume_success initAuth_resume_success getToken_def store_session_token)

lemma race_flags:
  assumes "truthy (st ''token'')"
  shows "isAuthenticated (login_answered_first js rv rl (mount st :: 'u world))
           = (succeeded rv \<or> succeeded rl)"
    and "isAuthenticated (validation_answered_first js rv rl (mount st :: 'u world))
           = (succeeded rv \<or> succeeded rl)"
    and "loading (login_answered_first js rv rl (mount st :: 'u world)) = False"
    and "loading (validation_answered_first js rv rl (mount st :: 'u world)) = False"
proof -
  note b = startup_token(1) [where 'u = 'u] 
  have all: "isAuthenticated (login_answered_first js rv rl (mount st :: 'u world))
           = (succeeded rv \<or> succeeded rl)
    \<and> isAuthenticated (validation_answered_first js rv rl (mount st :: 'u world))
           = (succeeded rv \<or> succeeded rl)
    \<and> loading (login_answered_first js rv rl (mount st :: 'u world)) = False
    \<and> loading (validation_answered_first js rv rl (mount st :: 'u world)) = False"
  proof (cases "succeeded rv")
    case True
    then obtain u where u: "rv = Success u" by (cases rv) simp_all
    show ?thesis
    proof (cases "succeeded rl")
      case True
      then obtain d where d: "rl = Success d" by (cases rl) simp_all
      show ?thesis
        using assms
        by (simp add: u d b login_answered_first_def validation_answered_first_def
              initAuth_resume_success login_resume_success)
    next
      case False
      then show ?thesis
        using assms
        by (simp add: u b login_answered_first_def validation_answered_first_def
              initAuth_resume_success login_resume_failed)
    qed
  next
    case False
    note fv = this
    show ?thesis
    proof (cases "succeeded rl")
      case True
      then obtain d where d: "rl = Success d" by (cases rl) simp_all
      show ?thesis
        using assms fv
        by (simp add: d b login_answered_first_def validation_answered_first_def
              initAuth_resume_failed login_resume_success)
    next
      case False
      then show ?thesis
        using assms fv
        by (simp add: b login_answered_first_def validation_answered_first_def
              initAuth_resume_failed login_resume_failed login_begin_fields mount_fields)
    qed
  qed
  show "isAuthenticated (login_answered_first js rv rl (mount st :: 'u world))
           = (succeeded rv \<or> succeeded rl)"
    and "isAuthenticated (validation_answered_first js rv rl (mount st :: 'u world))
           = (succeeded rv \<or> succeeded rl)"
    and "loading (login_answered_first js rv rl (mount st :: 'u world)) = False"
    and "loading (validation_answered_first js rv rl (mount st :: 'u world)) = False"
    using all by simp_all
qed

text \<open>
  C4 (as amended). The provider keeps no generation counter and discards no outcome: each
  response is applied when it arrives. For a login submitted while the startup validation
  request is in flight, in either order of arrival \<open>loading\<close> ends false and
  \<open>isAuthenticated\<close> ends true exactly when at least one of the two requests succeeded.
  The user and the Token Store are those left by the response that arrives last: a failed
  validation answered after the login leaves no token, a validation answered after the
  login leaves the validation's user, and a login answered last leaves its own user and token.
\<close>

theorem login_during_validation:
  assumes "truthy (st ''token'')"
  shows "fst (initAuth_begin (mount st :: 'u world))
           = Some (request_interceptor ''/auth/me'' (mount st :: 'u world))
       \<and> isAuthenticated (login_answered_first js rv rl (mount st :: 'u world))
           = (succeeded rv \<or> succeeded rl)
       \<and> isAuthenticated (validation_answered_first js rv rl (mount st :: 'u world))
           = (succeeded rv \<or> succeeded rl)
       \<and> loading (login_answered_first js rv rl (mount st :: 'u world)) = False
       \<and> loading (validation_answered_first js rv rl (mount st :: 'u world)) = False
       \<and> (\<not> succeeded rv \<longrightarrow>
            getToken (login_answered_first js rv rl (mount st :: 'u world)) = None)
       \<and> user (login_answered_first js (Success u) rl (mount st :: 'u world)) = Some u
       \<and> user (validation_answered_first js rv (Success d) (mount st :: 'u world))
           = Some (data_user d)
       \<and> (truthy (access_token d) \<longrightarrow>
            getToken (validation_answered_first js rv (Success d) (mount st :: 'u world))
              = access_token d)"
  using assms race_flags [where st = st and js = js and rv = rv and rl = rl]
  by (simp add: startup_token race_last_writer)

theorem login_during_validation_witness:
  "truthy ([''token'' \<mapsto> ''old''] ''token'')
   \<and> \<not> succeeded (Failure 401 None :: string reply)
   \<and> truthy (access_token \<lparr>access_token = Some ''new'', data_user = ''ann''\<rparr>)
   \<and> isAuthenticated (login_answered_first (\<lambda>u. u) (Failure 401 None)
         (Success \<lparr>access_token = Some ''new'', data_user = ''ann''\<rparr>)
         (mount [''token'' \<mapsto> ''old''] :: string world))
   \<and> isAuthenticated (validation_answered_first (\<lambda>u. u) (Failure 401 None)
         (Success \<lparr>access_token = Some ''new'', data_user = ''ann''\<rparr>)
         (mount [''token'' \<mapsto> ''old''] :: string world))
   \<and> getToken (login_answered_first (\<lambda>u. u) (Failure 401 None)
         (Success \<lparr>access_token = Some ''new'', data_user = ''ann''\<rparr>)
         (mount [''token'' \<mapsto> ''old''] :: string world)) = None
   \<and> getToken (validation_answered_first (\<lambda>u. u) (Failure 401 None)
         (Success \<lparr>access_token = Some ''new'', data_user = ''ann''\<rparr>)
         (mount [''token'' \<mapsto> ''old''] :: string world)) = Some ''new''"
proof -
  have h: "truthy ([''token'' \<mapsto> ''old''] ''token'')" by simp
  show ?thesis
    using h login_during_validation [where st = "[''token'' \<mapsto> ''old'']" and js = "\<lambda>u. u"
        and rv = "Failure 401 None"
        and rl = "Success \<lparr>access_token = Some ''new'', data_user = ''ann''\<rparr>"
        and u = "''bob''" and d = "\<lparr>access_token = Some ''new'', data_user = ''ann''\<rparr>", OF h]
    by simp
qed

text \<open>
  C4 as stated fails: with a stale token persisted, a validation answered 401 and a login
  that succeeds, the final Token Store depends on which response arrives first.
\<close>

theorem login_during_validation_counterexample:
  "getToken (login_answered_first (\<lambda>u. u) (Failure 401 None)
       (Success \<lparr>access_token = Some ''new'', data_user = ''ann''\<rparr>)
       (mount [''token'' \<mapsto> ''old''] :: string world)) = None
   \<and> getToken (validation_answered_first (\<lambda>u. u) (Failure 401 None)
       (Success \<lparr>access_token = Some ''new'', data_user = ''ann''\<rparr>)
       (mount [''token'' \<mapsto> ''old''] :: string world)) = Some ''new''
   \<and> spec_status (login_answered_first (\<lambda>u. u) (Failure 401 None)
       (Success \<lparr>access_token = Some ''new'', data_user = ''ann''\<rparr>)
       (mount [''token'' \<mapsto> ''old''] :: string world)) = Authenticated"
  by (simp add: login_answered_first_def validation_answered_first_def initAuth_resume_failed
        login_resume_success getToken_def store_session_token spec_status_def
        initAuth_begin_def getCurrentUser_begin_def login_begin_def mount_def)

section \<open>A rejected login\<close>

text \<open>
  C6. Whatever failure answers the login request, \<open>login\<close> rejects to its caller with
  that same error; with an empty Token Store and status Unauthenticated before, the store
  is empty and the status Unauthenticated after, and no redirect is issued, the storage
  and the user being left as they were.
\<close>

theorem login_rejected:
  assumes "\<not> succeeded r" and "\<not> truthy (getToken w)" and "spec_status w = Unauthenticated"
  shows "fst (login js r w) = axios_settle ''/auth/login'' r
       \<and> isl (axios_settle ''/auth/login'' r)
       \<and> \<not> truthy (getToken (snd (login js r w)))
       \<and> spec_status (snd (login js r w)) = Unauthenticated
       \<and> storage (snd (login js r w)) = storage w
       \<and> navigations (snd (login js r w)) = navigations w
       \<and> user (snd (login js r w)) = user w"
proof -
  have "isl (axios_settle ''/auth/login'' r)"
    using assms(1) by (cases r) simp_all
  moreover have "isAuthenticated w = False"
    using assms(3) by (simp add: spec_status_def split: if_splits)
  ultimately show ?thesis
    using assms
    by (simp add: login_def login_resume_failed login_begin_fields getToken_def spec_status_def)
qed

theorem login_rejected_witness:
  "\<not> succeeded (Failure 401 (Some ''Incorrect password'') :: string login_data reply)
   \<and> \<not> truthy (getToken ((mount Map.empty :: string world)\<lparr>loading := False\<rparr>))
   \<and> spec_status ((mount Map.empty :: string world)\<lparr>loading := False\<rparr>) = Unauthenticated
   \<and> fst (login (\<lambda>u. u) (Failure 401 (Some ''Incorrect password''))
            ((mount Map.empty :: string world)\<lparr>loading := False\<rparr>))
       = Inl (AxiosError (Some (401, Some ''Incorrect password'')) (Some ''/auth/login''))
   \<and> spec_status (snd (login (\<lambda>u. u) (Failure 401 (Some ''Incorrect password''))
            ((mount Map.empty :: string world)\<lparr>loading := False\<rparr>))) = Unauthenticated
   \<and> storage (snd (login (\<lambda>u. u) (Failure 401 (Some ''Incorrect password''))
            ((mount Map.empty :: string world)\<lparr>loading := False\<rparr>))) = Map.empty
   \<and> navigations (snd (login (\<lambda>u. u) (Failure 401 (Some ''Incorrect password''))
            ((mount Map.empty :: string world)\<lparr>loading := False\<rparr>))) = []"
proof -
  have h1: "\<not> succeeded (Failure 401 (Some ''Incorrect password'') :: string login_data reply)"
    by simp
  have h2: "\<not> truthy (getToken ((mount Map.empty :: string world)\<lparr>loading := False\<rparr>))"
    by (simp add: getToken_def mount_def)
  have h3: "spec_status ((mount Map.empty :: string world)\<lparr>loading := False\<rparr>) = Unauthenticated"
    by (simp add: spec_status_def mount_def)
  show ?thesis
    using h2 h3 login_rejected [OF h1 h2 h3, of "\<lambda>u. u"]
    by (simp add: mount_def)
qed

section \<open>Startup validation\<close>

text \<open>
  C7. At process start with a token persisted, the provider is in its loading state and
  \<open>initAuth\<close> sends the \<open>/auth/me\<close> request; a successful answer makes the provider
  Authenticated with the user the server returned, any failure removes token and user from
  the store and leaves the provider Unauthenticated. With no token persisted, no request
  is sent and the provider goes straight to Unauthenticated.
\<close>

theorem startup_validation:
  "(truthy (st ''token'') \<longrightarrow>
       initAuth_begin (mount st :: 'u world)
         = (Some (request_interceptor ''/auth/me'' (mount st :: 'u world)), mount st)
     \<and> spec_status (mount st :: 'u world) = Validating
     \<and> startup st (Success u)
         = (mount st :: 'u world)\<lparr>user := Some u, isAuthenticated := True, loading := False\<rparr>
     \<and> spec_status (startup st (Success u) :: 'u world) = Authenticated
     \<and> (\<not> succeeded r \<longrightarrow>
           spec_status (startup st r :: 'u world) = Unauthenticated
         \<and> storage (startup st r :: 'u world) = st(''token'' := None, ''user'' := None)
         \<and> user (startup st r :: 'u world) = None))
   \<and> (\<not> truthy (st ''token'') \<longrightarrow>
       initAuth_begin (mount st :: 'u world) = (None, (mount st)\<lparr>loading := False\<rparr>)
     \<and> startup st r = (mount st :: 'u world)\<lparr>loading := False\<rparr>
     \<and> spec_status (startup st r :: 'u world) = Unauthenticated)"
proof (cases "truthy (st ''token'')")
  case True
  have "spec_status (mount st :: 'u world) = Validating"
    by (simp add: spec_status_def mount_fields)
  moreover have "startup st (Success u)
      = (mount st :: 'u world)\<lparr>user := Some u, isAuthenticated := True, loading := False\<rparr>"
    using True by (simp add: startup_token initAuth_resume_success)
  moreover have "\<not> succeeded r \<longrightarrow>
           spec_status (startup st r :: 'u world) = Unauthenticated
         \<and> storage (startup st r :: 'u world) = st(''token'' := None, ''user'' := None)
         \<and> user (startup st r :: 'u world) = None"
    using True by (simp add: startup_token initAuth_resume_failed spec_status_def mount_fields)
  ultimately show ?thesis
    using True by (simp add: startup_token spec_status_def)
next
  case False
  then show ?thesis
    by (simp add: startup_no_token spec_status_def mount_fields)
qed

theorem startup_validation_witness:
  "truthy ([''token'' \<mapsto> ''t'', ''user'' \<mapsto> ''old''] ''token'')
   \<and> \<not> succeeded (Failure 500 None :: string reply)
   \<and> \<not> truthy ((Map.empty :: string \<rightharpoonup> string) ''token'')
   \<and> fst (initAuth_begin (mount [''token'' \<mapsto> ''t'', ''user'' \<mapsto> ''old''] :: string world))
       = Some \<lparr>req_url = ''/auth/me'', authorization = Some ''Bearer t''\<rparr>
   \<and> spec_status (startup [''token'' \<mapsto> ''t'', ''user'' \<mapsto> ''old''] (Success ''ann'') :: string world)
       = Authenticated
   \<and> user (startup [''token'' \<mapsto> ''t'', ''user'' \<mapsto> ''old''] (Success ''ann'') :: string world)
       = Some ''ann''
   \<and> spec_status (startup [''token'' \<mapsto> ''t'', ''user'' \<mapsto> ''old''] (Failure 500 None) :: string world)
       = Unauthenticated
   \<and> storage (startup [''token'' \<mapsto> ''t'', ''user'' \<mapsto> ''old''] (Failure 500 None) :: string world)
       = Map.empty
   \<and> fst (initAuth_begin (mount Map.empty :: string world)) = None
   \<and> spec_status (startup Map.empty (Success ''ann'') :: string world) = Unauthenticated"
proof -
  have h1: "truthy ([''token'' \<mapsto> ''t'', ''user'' \<mapsto> ''old''] ''token'')" by simp
  have h2: "\<not> succeeded (Failure 500 None :: string reply)" by simp
  have h3: "\<not> truthy ((Map.empty :: string \<rightharpoonup> string) ''token'')" by simp
  show ?thesis
    using h1 h2 h3
      startup_validation [where st = "[''token'' \<mapsto> ''t'', ''user'' \<mapsto> ''old'']"
        and u = "''ann''" and r = "Failure 500 None :: string reply" and 'u = string]
      startup_validation [where st = "Map.empty" and u = "''ann''"
        and r = "Success ''ann'' :: string reply" and 'u = string]
    by (simp add: request_interceptor_def getToken_def mount_def spec_status_def)
qed

section \<open>The route guard and the entry view\<close>

text \<open>
  C8. \<open>ProtectedRoute\<close> renders its children exactly when the status is Authenticated,
  the spinner exactly while it is Validating, and otherwise redirects to \<open>/\<close> with
  both markers set. The entry view opens the login prompt exactly when both markers are
  present in its location state; loaded through the guard's redirect it prompts and
  replaces the history state, so that loading the entry view again does not prompt.
\<close>

theorem route_guard_and_prompt:
  "(ProtectedRoute w = Children \<longleftrightarrow> spec_status w = Authenticated)
   \<and> (ProtectedRoute w = Spinner \<longleftrightarrow> spec_status w = Validating)
   \<and> (ProtectedRoute w = Navigate ''/'' \<lparr>requiresLogin = True, fromProtectedRoute = True\<rparr>
        \<longleftrightarrow> spec_status w = Unauthenticated)
   \<and> (showLoginPrompt (Home_load loc)
        \<longleftrightarrow> flag requiresLogin loc \<and> flag fromProtectedRoute loc)
   \<and> (flag requiresLogin loc \<longrightarrow> history_state (Home_load loc) = None)
   \<and> (spec_status w = Unauthenticated \<longrightarrow>
        follow (ProtectedRoute w)
          = Some \<lparr>showLoginPrompt = True, selectedFeature = ''Dashboard'', history_state = None\<rparr>)
   \<and> Home_load None = \<lparr>showLoginPrompt = False, selectedFeature = [], history_state = None\<rparr>"
  by (auto simp: ProtectedRoute_def spec_status_def Home_load_def Home_effect_def Let_def)

theorem route_guard_and_prompt_witness:
  "spec_status ((mount Map.empty :: string world)\<lparr>loading := False\<rparr>) = Unauthenticated
   \<and> flag requiresLogin (Some \<lparr>requiresLogin = True, fromProtectedRoute = True\<rparr>)
   \<and> follow (ProtectedRoute ((mount Map.empty :: string world)\<lparr>loading := False\<rparr>))
       = Some \<lparr>showLoginPrompt = True, selectedFeature = ''Dashboard'', history_state = None\<rparr>
   \<and> history_state (Home_load (Some \<lparr>requiresLogin = True, fromProtectedRoute = True\<rparr>)) = None
   \<and> \<not> showLoginPrompt (Home_load None)"
proof -
  have h1: "spec_status ((mount Map.empty :: string world)\<lparr>loading := False\<rparr>) = Unauthenticated"
    by (simp add: spec_status_def mount_def)
  have h2: "flag requiresLogin (Some \<lparr>requiresLogin = True, fromProtectedRoute = True\<rparr>)"
    by simp
  show ?thesis
    using h1 h2
      route_guard_and_prompt [of "(mount Map.empty :: string world)\<lparr>loading := False\<rparr>"
        "Some \<lparr>requiresLogin = True, fromProtectedRoute = True\<rparr>"]
    by (simp add: Home_load_def Home_effect_def)
qed

end
